theory Spec2Isabelle
  imports Complex_Main
begin

section \<open>The trading dashboard: data model\<close>

text \<open>
  The embedded program is the React component \<^verbatim>\<open>TradingDashboard\<close> of
  \<^verbatim>\<open>src/pages/trading-dashboard.tsx\<close>. Its \<^verbatim>\<open>useState\<close> cells become the
  fields of one record, \<open>dashboard\<close>; a state setter becomes a record update, and
  an asynchronous callback becomes a function from the state to the new state,
  paired with the list of HTTP requests it sent, in the order it sent them.

  A callback made by \<^verbatim>\<open>useCallback\<close> reads the state cells of the render
  that created it (its closure) and writes through setters to the current state.
  So every callback takes two states: \<open>cap\<close>, the captured render, and \<open>s\<close>, the
  state that the setters update. A functional update \<^verbatim>\<open>setX(prev => ...)\<close>
  reads \<open>s\<close>; a plain read of a state cell reads \<open>cap\<close>.

  What the outside world answers (a response, a rejected promise, a clock reading)
  is an argument of the callback.
\<close>

subsection \<open>Settings\<close>

text \<open>\<^verbatim>\<open>AppSettings\<close>, with the field names of \<^verbatim>\<open>defaultSettings\<close> (lines 25-40).\<close>

record app_settings =
  aiProvider :: string
  geminiApiKey :: string
  openaiApiKey :: string
  deepseekApiKey :: string
  mexcApiKey :: string
  mexcSecretKey :: string
  tradingSymbol :: string
  defaultLeverage :: int
  riskPercent :: int
  isAutoTrading :: bool
  intervalMinutes :: int
  isLiveMode :: bool
  supabaseUrl :: string
  supabaseAnonKey :: string

definition defaultSettings :: app_settings where
  "defaultSettings =
     \<lparr> aiProvider = ''gemini'', geminiApiKey = '''', openaiApiKey = '''',
       deepseekApiKey = '''', mexcApiKey = '''', mexcSecretKey = '''',
       tradingSymbol = ''BTCUSDT'', defaultLeverage = 10, riskPercent = 2,
       isAutoTrading = False, intervalMinutes = 1, isLiveMode = False,
       supabaseUrl = '''', supabaseAnonKey = '''' \<rparr>"

subsection \<open>Market data, positions, decisions, log entries\<close>

text \<open>
  The ticker is the JSON body of \<^verbatim>\<open>/api/market/ticker\<close>; \<^verbatim>\<open>MarketData\<close> is
  the ticker spread into a new object with a \<^verbatim>\<open>history\<close> field (line 117), so it
  is the record extension of the ticker. A history point \<^verbatim>\<open>{time, price}\<close> is the
  pair \<open>(time, price)\<close>. Prices are JavaScript numbers that the component stores
  and forwards without arithmetic; they are reals here.
\<close>

record ticker =
  price :: real
  change24h :: real

record market_data = ticker +
  history :: "(string \<times> real) list"

text \<open>\<^verbatim>\<open>Position\<close>: the fields the component reads (lines 171, 540-549).\<close>

record position =
  pos_id :: string
  symbol :: string
  side :: string
  leverage :: int
  entryPrice :: real
  currentPrice :: real
  pnl :: real

text \<open>
  \<^verbatim>\<open>TradeAction\<close>, the oracle's decision. The action is compared with the
  string \<^verbatim>\<open>'WAIT'\<close> only (line 177), so it stays a string.
\<close>

record trade_action =
  action :: string
  confidence :: int
  reason :: string

datatype log_type = INFO | SUCCESS | ERROR | TRADE

record trading_log =
  log_id :: string
  timestamp :: string
  log_type :: log_type
  message :: string

text \<open>
  The connection status \<^verbatim>\<open>'ERROR'\<close> is \<open>ERROR_STATUS\<close>: the name \<open>ERROR\<close> is the
  log type.
\<close>

datatype connection_status = CONNECTED | DISCONNECTED | ERROR_STATUS

subsection \<open>The component state\<close>

text \<open>
  One field for each \<^verbatim>\<open>useState\<close> cell the modelled callbacks touch (lines
  47-76). \<^verbatim>\<open>MexcBalance\<close>, \<^verbatim>\<open>MexcOrder\<close> and \<^verbatim>\<open>MexcTrade\<close> are declared
  outside the source tree and never inspected by the callbacks: they are the type
  parameters \<open>'b\<close>, \<open>'o\<close> and \<open>'t\<close>.
\<close>

record ('b, 'o, 't) dashboard =
  isLoggedIn :: bool
  settings :: app_settings
  marketData :: "market_data option"
  spotBalances :: "'b list"
  futuresBalances :: "'b list"
  mexcPositions :: "position list"
  mexcOrders :: "'o list"
  mexcTrades :: "'t list"
  logs :: "trading_log list"
  lastAction :: "trade_action option"
  isLoading :: bool
  isAnalyzing :: bool
  mexcStatus :: connection_status

definition initial :: "app_settings \<Rightarrow> ('b, 'o, 't) dashboard" where
  "initial st =
     \<lparr> isLoggedIn = False, settings = st, marketData = None,
       spotBalances = [], futuresBalances = [], mexcPositions = [],
       mexcOrders = [], mexcTrades = [], logs = [], lastAction = None,
       isLoading = True, isAnalyzing = False, mexcStatus = DISCONNECTED \<rparr>"

subsection \<open>Errors and requests\<close>

text \<open>
  A rejected promise or a thrown exception carries a JavaScript \<^verbatim>\<open>Error\<close> with
  its message. A call that can reject returns \<open>error + 'a\<close>, \<open>Inl\<close> the rejection.
\<close>

datatype error = Error string

fun error_message :: "error \<Rightarrow> string" where
  "error_message (Error m) = m"

text \<open>
  The HTTP requests the callbacks send:
  \<^item> \<open>TickerRequest symbol\<close>: \<^verbatim>\<open>GET /api/market/ticker?symbol=\<close> (line 109);
  \<^item> \<open>AccountRequest apiKey secretKey symbol\<close>: \<^verbatim>\<open>POST /api/mexc/account\<close>
    (lines 131-135);
  \<^item> \<open>AnalyzeRequest aiProvider geminiApiKey openaiApiKey deepseekApiKey tradingSymbol
    defaultLeverage marketData currentPositionSide\<close>: \<^verbatim>\<open>POST /api/ai/analyze\<close>
    (lines 161-172), the call of the decision oracle;
  \<^item> \<open>TradeRequest action apiKey secretKey symbol leverage price\<close>:
    \<^verbatim>\<open>POST /api/mexc/trade\<close> (lines 181-188), the order submission.
\<close>

datatype api_call =
    TickerRequest string
  | AccountRequest string string string
  | AnalyzeRequest string string string string string int market_data string
  | TradeRequest string string string string int real

fun is_trade_request :: "api_call \<Rightarrow> bool" where
  "is_trade_request (TradeRequest a k sk sy l p) = True"
| "is_trade_request c = False"

fun is_account_request :: "api_call \<Rightarrow> bool" where
  "is_account_request (AccountRequest k sk sy) = True"
| "is_account_request c = False"

section \<open>The event ledger\<close>

text \<open>
  \<^verbatim>\<open>addLog\<close> (lines 79-87). The clock reading is the pair of \<^verbatim>\<open>Date.now().toString()\<close>
  and \<^verbatim>\<open>new Date().toLocaleTimeString()\<close>. \<^verbatim>\<open>[newLog, ...prev].slice(0, 100)\<close>
  is \<open>take 100 (newLog # prev)\<close>.
\<close>

type_synonym stamp = "string \<times> string"

definition newLog :: "stamp \<Rightarrow> log_type \<Rightarrow> string \<Rightarrow> trading_log" where
  "newLog now ty msg =
     \<lparr> log_id = fst now, timestamp = snd now, log_type = ty, message = msg \<rparr>"

definition addLog ::
  "stamp \<Rightarrow> log_type \<Rightarrow> string \<Rightarrow> ('b, 'o, 't) dashboard \<Rightarrow> ('b, 'o, 't) dashboard" where
  "addLog now ty msg s = s\<lparr> logs := take 100 (newLog now ty msg # logs s) \<rparr>"

text \<open>The clear button of the log view: \<^verbatim>\<open>setLogs([])\<close> (line 856).\<close>

definition clearLogs :: "('b, 'o, 't) dashboard \<Rightarrow> ('b, 'o, 't) dashboard" where
  "clearLogs s = s\<lparr> logs := [] \<rparr>"

text \<open>A sequence of emissions, oldest first.\<close>

fun emit_all ::
  "(stamp \<times> log_type \<times> string) list \<Rightarrow> ('b, 'o, 't) dashboard \<Rightarrow> ('b, 'o, 't) dashboard" where
  "emit_all [] s = s"
| "emit_all ((now, ty, msg) # es) s = emit_all es (addLog now ty msg s)"

definition entry_of :: "stamp \<times> log_type \<times> string \<Rightarrow> trading_log" where
  "entry_of e = newLog (fst e) (fst (snd e)) (snd (snd e))"

section \<open>The market poller\<close>

text \<open>
  \<^verbatim>\<open>xs.slice(-n)\<close> for a positive \<open>n\<close>: the last \<open>n\<close> elements, or all of \<open>xs\<close>
  when it is shorter. The subtraction on \<open>nat\<close> stops at 0, which is the start
  index JavaScript takes for a short array.
\<close>

definition slice_last :: "nat \<Rightarrow> 'a list \<Rightarrow> 'a list" where
  "slice_last n xs = drop (length xs - n) xs"

text \<open>\<^verbatim>\<open>prev?.history ? [...prev.history] : []\<close> (line 115).\<close>

definition history_of :: "('b, 'o, 't) dashboard \<Rightarrow> (string \<times> real) list" where
  "history_of s = (case marketData s of None \<Rightarrow> [] | Some prev \<Rightarrow> history prev)"

text \<open>
  \<^verbatim>\<open>refreshMarket\<close> (lines 107-123). \<open>response\<close> is the outcome of the \<^verbatim>\<open>try\<close>
  block up to line 111: \<open>Inr\<close> the parsed ticker, \<open>Inl\<close> when \<^verbatim>\<open>fetch\<close> rejects,
  the status is not ok (line 110) or the body does not parse. \<open>currentTime\<close> is
  the clock reading of line 112. The update of \<^verbatim>\<open>marketData\<close> is functional
  (it reads \<open>s\<close>); \<^verbatim>\<open>isLoading\<close> and the symbol are read from the closure.
\<close>

definition refreshMarket ::
  "('b, 'o, 't) dashboard \<Rightarrow> string \<Rightarrow> error + ticker \<Rightarrow> ('b, 'o, 't) dashboard
     \<Rightarrow> ('b, 'o, 't) dashboard \<times> api_call list" where
  "refreshMarket cap currentTime response s =
     (case response of
        Inr tk \<Rightarrow>
          (let newHistory = slice_last 50 (history_of s @ [(currentTime, price tk)]);
               s1 = s\<lparr> marketData :=
                       Some \<lparr> price = price tk, change24h = change24h tk,
                              history = newHistory \<rparr> \<rparr>
           in (if isLoading cap then s1\<lparr> isLoading := False \<rparr> else s1,
               [TickerRequest (tradingSymbol (settings cap))]))
      | Inl err \<Rightarrow>
          (if isLoading cap then s\<lparr> isLoading := False \<rparr> else s,
           [TickerRequest (tradingSymbol (settings cap))]))"

text \<open>
  A sequence of ticks of the 5-second timer (lines 199-203), oldest first: each
  tick comes with the closure it runs in, its clock reading and its response.
  \<open>fetched\<close> lists the points of the successful ticks, in the order of the ticks.
\<close>

type_synonym ('b, 'o, 't) tick = "('b, 'o, 't) dashboard \<times> string \<times> (error + ticker)"

fun ticks :: "('b, 'o, 't) tick list \<Rightarrow> ('b, 'o, 't) dashboard \<Rightarrow> ('b, 'o, 't) dashboard" where
  "ticks [] s = s"
| "ticks ((cap, currentTime, response) # ts) s =
     ticks ts (fst (refreshMarket cap currentTime response s))"

fun fetched :: "('b, 'o, 't) tick list \<Rightarrow> (string \<times> real) list" where
  "fetched [] = []"
| "fetched ((cap, currentTime, Inr tk) # ts) = (currentTime, price tk) # fetched ts"
| "fetched ((cap, currentTime, Inl err) # ts) = fetched ts"

section \<open>The account synchronizer\<close>

text \<open>
  The JSON body of \<^verbatim>\<open>/api/mexc/account\<close>. Every field may be absent
  (\<open>None\<close>): the callback tests \<^verbatim>\<open>data.error\<close> and reads each collection as
  \<^verbatim>\<open>data.x || []\<close>.
\<close>

record ('b, 'o, 't) account_payload =
  data_error :: "string option"
  data_spotBalances :: "'b list option"
  data_futuresBalances :: "'b list option"
  data_positions :: "position list option"
  data_orders :: "'o list option"
  data_trades :: "'t list option"

text \<open>\<^verbatim>\<open>x || []\<close> on an optional array: an array, also an empty one, is truthy.\<close>

fun or_empty :: "'a list option \<Rightarrow> 'a list" where
  "or_empty None = []"
| "or_empty (Some xs) = xs"

text \<open>
  The outcome of the \<^verbatim>\<open>try\<close> block of \<^verbatim>\<open>refreshAccountData\<close> up to line
  141: \<open>Inl\<close> what it throws, \<open>Inr\<close> the payload it goes on with. It throws the
  rejection of \<^verbatim>\<open>apiRequest\<close> or of \<^verbatim>\<open>response.json()\<close>, and
  \<^verbatim>\<open>new Error(data.error)\<close> when \<^verbatim>\<open>data.error\<close> is truthy. A string is truthy
  when it is not empty; an absent or empty \<^verbatim>\<open>error\<close> field throws nothing.
\<close>

fun sync_try ::
  "error + ('b, 'o, 't) account_payload \<Rightarrow> error + ('b, 'o, 't) account_payload" where
  "sync_try (Inl err) = Inl err"
| "sync_try (Inr data) =
     (case data_error data of
        None \<Rightarrow> Inr data
      | Some m \<Rightarrow> if m \<noteq> [] then Inl (Error m) else Inr data)"

text \<open>The body of the account request (lines 131-135), from the closure.\<close>

definition account_request :: "('b, 'o, 't) dashboard \<Rightarrow> api_call" where
  "account_request cap =
     AccountRequest (mexcApiKey (settings cap)) (mexcSecretKey (settings cap))
       (tradingSymbol (settings cap))"

text \<open>
  \<^verbatim>\<open>refreshAccountData\<close> (lines 125-154). The credentials and the session
  flag are read from the closure; an empty string is falsy. \<open>now\<close> is the clock
  reading of the one log entry the callback writes.
\<close>

definition refreshAccountData ::
  "('b, 'o, 't) dashboard \<Rightarrow> stamp \<Rightarrow> error + ('b, 'o, 't) account_payload
     \<Rightarrow> ('b, 'o, 't) dashboard \<Rightarrow> ('b, 'o, 't) dashboard \<times> api_call list" where
  "refreshAccountData cap now response s =
     (if mexcApiKey (settings cap) = [] \<or> mexcSecretKey (settings cap) = [] \<or> \<not> isLoggedIn cap
      then (s\<lparr> mexcStatus := DISCONNECTED \<rparr>, [])
      else
        (case sync_try response of
           Inr data \<Rightarrow>
             (addLog now SUCCESS ''MEXC account synced successfully''
                (s\<lparr> spotBalances := or_empty (data_spotBalances data),
                    futuresBalances := or_empty (data_futuresBalances data),
                    mexcPositions := or_empty (data_positions data),
                    mexcOrders := or_empty (data_orders data),
                    mexcTrades := or_empty (data_trades data),
                    mexcStatus := CONNECTED \<rparr>),
              [account_request cap])
         | Inl e \<Rightarrow>
             ((addLog now ERROR (''MEXC sync error: '' @ error_message e) s)
                \<lparr> mexcStatus := ERROR_STATUS \<rparr>,
              [account_request cap])))"

section \<open>The decision cycle\<close>

text \<open>
  A template literal renders an integer in decimal, with a minus sign when it is
  negative.
\<close>

fun show_nat :: "nat \<Rightarrow> string" where
  "show_nat n =
     (if n < 10 then [''0123456789'' ! n]
      else show_nat (n div 10) @ [''0123456789'' ! (n mod 10)])"

declare show_nat.simps [simp del]

definition show_int :: "int \<Rightarrow> string" where
  "show_int i = (if i < 0 then CHR ''-'' # show_nat (nat (- i)) else show_nat (nat i))"

text \<open>
  What the outside world answers during one run of \<^verbatim>\<open>runTradingCycle\<close>: the
  oracle, the exchange on the order, the exchange on the account request of the
  refresh, and the clock at each log entry.

  The answer of the oracle is the outcome of lines 161-174: \<open>Inl\<close> when
  \<^verbatim>\<open>apiRequest\<close> or \<^verbatim>\<open>response.json()\<close> rejects, \<open>Inr\<close> the parsed body. The
  body is a \<^verbatim>\<open>TradeAction\<close> object or the JSON value \<^verbatim>\<open>null\<close> (\<open>None\<close>), which
  \<^verbatim>\<open>response.json()\<close> returns as it is. \<open>null_read\<close> is the \<^verbatim>\<open>TypeError\<close> the
  engine throws when a property of \<^verbatim>\<open>null\<close> is read; its message depends on the
  engine.
\<close>

record ('b, 'o, 't) cycle_env =
  analyze_response :: "error + trade_action option"
  null_read :: error
  trade_stamp :: stamp
  trade_response :: "error + unit"
  failure_stamp :: stamp
  sync_stamp :: stamp
  account_response :: "error + ('b, 'o, 't) account_payload"

text \<open>
  \<^verbatim>\<open>mexcPositions.length > 0 ? mexcPositions[0].side : 'NONE'\<close> (line 171).
\<close>

fun currentPositionSide :: "position list \<Rightarrow> string" where
  "currentPositionSide [] = ''NONE''"
| "currentPositionSide (p # ps) = side p"

text \<open>
  The bodies of the request to the oracle (lines 161-172) and of the order
  submission (lines 181-188), from the closure, the market snapshot and the
  decision.
\<close>

definition analyze_request :: "('b, 'o, 't) dashboard \<Rightarrow> market_data \<Rightarrow> api_call" where
  "analyze_request cap md =
     AnalyzeRequest (aiProvider (settings cap)) (geminiApiKey (settings cap))
       (openaiApiKey (settings cap)) (deepseekApiKey (settings cap))
       (tradingSymbol (settings cap)) (defaultLeverage (settings cap))
       md (currentPositionSide (mexcPositions cap))"

definition trade_request ::
  "('b, 'o, 't) dashboard \<Rightarrow> market_data \<Rightarrow> trade_action \<Rightarrow> api_call" where
  "trade_request cap md decision =
     TradeRequest (action decision) (mexcApiKey (settings cap)) (mexcSecretKey (settings cap))
       (tradingSymbol (settings cap)) (defaultLeverage (settings cap)) (price md)"

text \<open>
  The \<^verbatim>\<open>catch\<close> block (lines 193-196). The rejections modelled are
  \<^verbatim>\<open>Error\<close> objects, so the message is \<^verbatim>\<open>err.message\<close>.
\<close>

definition cycle_catch ::
  "stamp \<Rightarrow> error \<Rightarrow> ('b, 'o, 't) dashboard \<Rightarrow> ('b, 'o, 't) dashboard" where
  "cycle_catch now err s =
     (addLog now ERROR (''AI analysis failed: '' @ error_message err) s)
       \<lparr> isAnalyzing := False \<rparr>"

text \<open>
  \<^verbatim>\<open>runTradingCycle\<close> suspends at two \<^verbatim>\<open>await\<close>s, so it is three pieces of
  synchronous code.

  The first piece (lines 157-172) runs when the callback is invoked: the guard,
  \<^verbatim>\<open>setIsAnalyzing(true)\<close> and the request to the oracle. \<open>None\<close> is the early
  return of line 157; otherwise the result carries the market snapshot that the
  rest of the run reads (\<^verbatim>\<open>marketData\<close> is not null after the guard).
\<close>

definition cycle_start ::
  "('b, 'o, 't) dashboard \<Rightarrow> ('b, 'o, 't) dashboard
     \<Rightarrow> (('b, 'o, 't) dashboard \<times> api_call list \<times> market_data) option" where
  "cycle_start cap s =
     (if \<not> isAutoTrading (settings cap) then None
      else
        (case marketData cap of
           None \<Rightarrow> None
         | Some md \<Rightarrow>
             Some (s\<lparr> isAnalyzing := True \<rparr>,
                   [analyze_request cap md],
                   md)))"

text \<open>
  The second piece (lines 174-188, 192 and the \<^verbatim>\<open>catch\<close>) runs when the oracle's
  call settles. \<^verbatim>\<open>setLastAction(decision)\<close> of line 175 runs on every parsed
  body, before line 177 reads \<^verbatim>\<open>decision.action\<close>: on the body \<^verbatim>\<open>null\<close> the
  state cell is set to \<^verbatim>\<open>null\<close> and the read throws into the \<^verbatim>\<open>catch\<close>. The
  third component of the result says whether the run is suspended again, at the
  \<^verbatim>\<open>await\<close> of the order submission.
\<close>

definition cycle_after_oracle ::
  "('b, 'o, 't) dashboard \<Rightarrow> market_data \<Rightarrow> ('b, 'o, 't) cycle_env \<Rightarrow> ('b, 'o, 't) dashboard
     \<Rightarrow> ('b, 'o, 't) dashboard \<times> api_call list \<times> bool" where
  "cycle_after_oracle cap md env s =
     (case analyze_response env of
        Inl err \<Rightarrow> (cycle_catch (failure_stamp env) err s, [], False)
      | Inr body \<Rightarrow>
          (let s1 = s\<lparr> lastAction := body \<rparr> in
           case body of
             None \<Rightarrow> (cycle_catch (failure_stamp env) (null_read env) s1, [], False)
           | Some decision \<Rightarrow>
               if action decision \<noteq> ''WAIT'' then
                 (let s2 = addLog (trade_stamp env) TRADE
                             (''AI decision: '' @ action decision @ '' (''
                                @ show_int (confidence decision) @ ''%)'') s1 in
                  if isLiveMode (settings cap) then
                    (s2,
                     [trade_request cap md decision],
                     True)
                  else (s2\<lparr> isAnalyzing := False \<rparr>, [], False))
               else (s1\<lparr> isAnalyzing := False \<rparr>, [], False)))"

text \<open>
  The third piece (lines 189, 192 and the \<^verbatim>\<open>catch\<close>) runs when the order
  submission settles. A rejection of the \<^verbatim>\<open>await\<close> of line 181 leaves the
  \<^verbatim>\<open>try\<close> block at once. \<^verbatim>\<open>refreshAccountData()\<close> is called without
  \<^verbatim>\<open>await\<close>; it writes no state cell that line 192 writes, so its run is taken
  here as a whole, before \<^verbatim>\<open>setIsAnalyzing(false)\<close>. It is the callback of
  the same render as \<^verbatim>\<open>runTradingCycle\<close>, so it has the same closure.
\<close>

definition cycle_after_exchange ::
  "('b, 'o, 't) dashboard \<Rightarrow> ('b, 'o, 't) cycle_env \<Rightarrow> ('b, 'o, 't) dashboard
     \<Rightarrow> ('b, 'o, 't) dashboard \<times> api_call list" where
  "cycle_after_exchange cap env s =
     (case trade_response env of
        Inl err \<Rightarrow> (cycle_catch (failure_stamp env) err s, [])
      | Inr ok \<Rightarrow>
          (case refreshAccountData cap (sync_stamp env) (account_response env) s of
             (s1, calls) \<Rightarrow> (s1\<lparr> isAnalyzing := False \<rparr>, calls)))"

text \<open>\<^verbatim>\<open>runTradingCycle\<close> (lines 156-197), run from its call to its end.\<close>

definition runTradingCycle ::
  "('b, 'o, 't) dashboard \<Rightarrow> ('b, 'o, 't) cycle_env \<Rightarrow> ('b, 'o, 't) dashboard
     \<Rightarrow> ('b, 'o, 't) dashboard \<times> api_call list" where
  "runTradingCycle cap env s =
     (case cycle_start cap s of
        None \<Rightarrow> (s, [])
      | Some (s1, calls1, md) \<Rightarrow>
          (case cycle_after_oracle cap md env s1 of
             (s2, calls2, False) \<Rightarrow> (s2, calls1 @ calls2)
           | (s2, calls2, True) \<Rightarrow>
               (case cycle_after_exchange cap env s2 of
                  (s3, calls3) \<Rightarrow> (s3, calls1 @ calls2 @ calls3))))"

fun is_analyze_request :: "api_call \<Rightarrow> bool" where
  "is_analyze_request (AnalyzeRequest p g oa d sy l m ps) = True"
| "is_analyze_request c = False"

section \<open>The decision cycle scheduler\<close>

text \<open>
  The effect of lines 213-220 calls \<^verbatim>\<open>runTradingCycle()\<close> when it runs and at
  every firing of its interval timer. Each call runs the first piece of the cycle
  at once; the later pieces run when the pending call settles. The scheduler
  state is the component state with the cycles that are suspended at an
  \<^verbatim>\<open>await\<close> (in flight), each with its closure, and the requests sent so far.
\<close>

datatype phase = AwaitingOracle | AwaitingExchange

record ('b, 'o, 't) cycle =
  closure :: "('b, 'o, 't) dashboard"
  snapshot :: market_data
  phase :: phase

record ('b, 'o, 't) scheduler =
  dash :: "('b, 'o, 't) dashboard"
  in_flight :: "('b, 'o, 't) cycle list"
  sent :: "api_call list"

text \<open>
  \<open>Fire\<close>: the effect or its timer calls \<^verbatim>\<open>runTradingCycle\<close>, with the closure
  of the current render. \<open>OracleSettles i env\<close> and \<open>ExchangeSettles i env\<close>: the
  pending call of the \<open>i\<close>-th cycle in flight settles, with the answers \<open>env\<close>.
\<close>

datatype ('b, 'o, 't) event =
    Fire
  | OracleSettles nat "('b, 'o, 't) cycle_env"
  | ExchangeSettles nat "('b, 'o, 't) cycle_env"

definition remove_at :: "nat \<Rightarrow> 'a list \<Rightarrow> 'a list" where
  "remove_at i xs = take i xs @ drop (Suc i) xs"

fun step :: "('b, 'o, 't) event \<Rightarrow> ('b, 'o, 't) scheduler \<Rightarrow> ('b, 'o, 't) scheduler" where
  "step Fire \<sigma> =
     (case cycle_start (dash \<sigma>) (dash \<sigma>) of
        None \<Rightarrow> \<sigma>
      | Some (s1, calls, md) \<Rightarrow>
          \<sigma>\<lparr> dash := s1,
             in_flight := in_flight \<sigma> @ [\<lparr> closure = dash \<sigma>, snapshot = md, phase = AwaitingOracle \<rparr>],
             sent := sent \<sigma> @ calls \<rparr>)"
| "step (OracleSettles i env) \<sigma> =
     (if i < length (in_flight \<sigma>) \<and> phase (in_flight \<sigma> ! i) = AwaitingOracle then
        (case cycle_after_oracle (closure (in_flight \<sigma> ! i)) (snapshot (in_flight \<sigma> ! i)) env (dash \<sigma>) of
           (s1, calls, suspended) \<Rightarrow>
             \<sigma>\<lparr> dash := s1,
                in_flight :=
                  (if suspended
                   then (in_flight \<sigma>)[i := (in_flight \<sigma> ! i)\<lparr> phase := AwaitingExchange \<rparr>]
                   else remove_at i (in_flight \<sigma>)),
                sent := sent \<sigma> @ calls \<rparr>)
      else \<sigma>)"
| "step (ExchangeSettles i env) \<sigma> =
     (if i < length (in_flight \<sigma>) \<and> phase (in_flight \<sigma> ! i) = AwaitingExchange then
        (case cycle_after_exchange (closure (in_flight \<sigma> ! i)) env (dash \<sigma>) of
           (s1, calls) \<Rightarrow>
             \<sigma>\<lparr> dash := s1, in_flight := remove_at i (in_flight \<sigma>), sent := sent \<sigma> @ calls \<rparr>)
      else \<sigma>)"

fun run :: "('b, 'o, 't) event list \<Rightarrow> ('b, 'o, 't) scheduler \<Rightarrow> ('b, 'o, 't) scheduler" where
  "run [] \<sigma> = \<sigma>"
| "run (e # es) \<sigma> = run es (step e \<sigma>)"

text \<open>
  An execution in which every call of \<^verbatim>\<open>runTradingCycle\<close> comes when no cycle
  is in flight: each cycle's calls settle before the next firing.
\<close>

fun is_fire :: "('b, 'o, 't) event \<Rightarrow> bool" where
  "is_fire Fire = True"
| "is_fire e = False"

fun spaced :: "('b, 'o, 't) event list \<Rightarrow> ('b, 'o, 't) scheduler \<Rightarrow> bool" where
  "spaced [] \<sigma> = True"
| "spaced (e # es) \<sigma> = ((if is_fire e then in_flight \<sigma> = [] else True) \<and> spaced es (step e \<sigma>))"

section \<open>The settings inputs\<close>

text \<open>
  The value of an input element is a JavaScript string, a sequence of UTF-16 code
  units: a list of their numbers here, so that the white space \<^verbatim>\<open>parseInt\<close>
  skips is the one of the language. \<open>utf16\<close> gives the code units of an ASCII
  literal.
\<close>

type_synonym js_string = "nat list"

definition utf16 :: "string \<Rightarrow> js_string" where
  "utf16 cs = map of_char cs"

text \<open>
  \<^verbatim>\<open>StrWhiteSpaceChar\<close>: TAB, LF, VT, FF, CR, SP, NBSP, the other space
  separators, the line and paragraph separators, and the byte order mark.
\<close>

definition isWhiteSpace :: "nat \<Rightarrow> bool" where
  "isWhiteSpace c =
     (c = 9 \<or> c = 10 \<or> c = 11 \<or> c = 12 \<or> c = 13 \<or> c = 32 \<or> c = 160 \<or> c = 5760
      \<or> (8192 \<le> c \<and> c \<le> 8202) \<or> c = 8232 \<or> c = 8233 \<or> c = 8239 \<or> c = 8287
      \<or> c = 12288 \<or> c = 65279)"

text \<open>The value of a code unit as a digit: 0-9, then a-z or A-Z for 10-35.\<close>

definition digit_of :: "nat \<Rightarrow> nat option" where
  "digit_of c =
     (if 48 \<le> c \<and> c \<le> 57 then Some (c - 48)
      else if 97 \<le> c \<and> c \<le> 122 then Some (c - 87)
      else if 65 \<le> c \<and> c \<le> 90 then Some (c - 55)
      else None)"

text \<open>The digits of the longest prefix made of digits of radix \<open>R\<close>.\<close>

fun leading_digits :: "nat \<Rightarrow> js_string \<Rightarrow> nat list" where
  "leading_digits R [] = []"
| "leading_digits R (c # cs) =
     (case digit_of c of
        None \<Rightarrow> []
      | Some d \<Rightarrow> if d < R then d # leading_digits R cs else [])"

definition radix_value :: "nat \<Rightarrow> nat list \<Rightarrow> nat" where
  "radix_value R ds = foldl (\<lambda>acc d. acc * R + d) 0 ds"

text \<open>
  \<^verbatim>\<open>parseInt(string)\<close> with no radix, after the language definition: skip
  leading white space, read a sign, read the prefix \<^verbatim>\<open>0x\<close> or \<^verbatim>\<open>0X\<close> (radix
  16, else radix 10), take the longest run of digits; \<open>None\<close> is \<^verbatim>\<open>NaN\<close>, the
  result when that run is empty. The result here is the exact integer. JavaScript
  rounds it to a double; the rounding is monotone and leaves every integer of
  magnitude up to \<open>2^53\<close> as it is, so \<^verbatim>\<open>Math.max(1, _)\<close> of the rounded value is
  at least 1 and \<^verbatim>\<open>Math.min(125, Math.max(1, _))\<close> of it is the same number as
  for the exact integer.
\<close>

definition parseInt :: "js_string \<Rightarrow> int option" where
  "parseInt inputString =
     (let S = dropWhile isWhiteSpace inputString;
          sign = (case S of [] \<Rightarrow> 1 | c # r \<Rightarrow> if c = 45 then - 1 else (1 :: int));
          S1 = (case S of [] \<Rightarrow> [] | c # r \<Rightarrow> if c = 43 \<or> c = 45 then r else S);
          hex = (case S1 of
                   a # b # r \<Rightarrow> a = 48 \<and> (b = 120 \<or> b = 88)
                 | _ \<Rightarrow> False);
          R = (if hex then 16 else 10);
          S2 = (if hex then drop 2 S1 else S1);
          Z = leading_digits R S2
      in if Z = [] then None else Some (sign * int (radix_value R Z)))"

text \<open>\<^verbatim>\<open>x || 1\<close> on a number: \<^verbatim>\<open>NaN\<close> and 0 are falsy.\<close>

fun or_one :: "int option \<Rightarrow> int" where
  "or_one None = 1"
| "or_one (Some n) = (if n = 0 then 1 else n)"

text \<open>
  The \<^verbatim>\<open>onChange\<close> handlers of the three numeric inputs (lines 744, 759 and
  771), each a functional update of the settings with \<^verbatim>\<open>e.target.value\<close>.
\<close>

definition onChange_intervalMinutes :: "js_string \<Rightarrow> app_settings \<Rightarrow> app_settings" where
  "onChange_intervalMinutes v s = s\<lparr> intervalMinutes := max 1 (or_one (parseInt v)) \<rparr>"

definition onChange_defaultLeverage :: "js_string \<Rightarrow> app_settings \<Rightarrow> app_settings" where
  "onChange_defaultLeverage v s =
     s\<lparr> defaultLeverage := min 125 (max 1 (or_one (parseInt v))) \<rparr>"

definition onChange_riskPercent :: "js_string \<Rightarrow> app_settings \<Rightarrow> app_settings" where
  "onChange_riskPercent v s = s\<lparr> riskPercent := min 100 (max 1 (or_one (parseInt v))) \<rparr>"

section \<open>Sample inputs\<close>

text \<open>
  Concrete inputs for the instances below: settings with both exchange
  credentials, a market snapshot, and a signed-in component state that holds some
  account data (balances and orders are numbers in the samples).
\<close>

definition sample_settings :: app_settings where
  "sample_settings = defaultSettings\<lparr> mexcApiKey := ''key'', mexcSecretKey := ''secret'' \<rparr>"

definition sample_market :: market_data where
  "sample_market = \<lparr> price = 100, change24h = 1, history = [(''10:00:00'', 100)] \<rparr>"

definition sample_dashboard :: "app_settings \<Rightarrow> (nat, nat, nat) dashboard" where
  "sample_dashboard st =
     (initial st)\<lparr> isLoggedIn := True, marketData := Some sample_market,
                   spotBalances := [1, 2], mexcOrders := [3], mexcStatus := CONNECTED \<rparr>"

text \<open>
  A decision \<^verbatim>\<open>LONG\<close> with confidence 80, and the answers of the outside
  world during one decision cycle: the oracle returns that decision, the exchange
  rejects the order, and the account request would succeed with an empty payload.
  The message of \<open>null_read\<close> is the start of the one V8 gives.
\<close>

definition sample_decision :: trade_action where
  "sample_decision = \<lparr> action = ''LONG'', confidence = 80, reason = ''momentum'' \<rparr>"

definition sample_env :: "(nat, nat, nat) cycle_env" where
  "sample_env =
     \<lparr> analyze_response = Inr (Some sample_decision),
       null_read = Error ''Cannot read properties of null'',
       trade_stamp = (''1'', ''10:01:00''),
       trade_response = Inl (Error ''Failed to fetch''),
       failure_stamp = (''2'', ''10:01:01''),
       sync_stamp = (''3'', ''10:01:02''),
       account_response =
         Inr \<lparr> data_error = None, data_spotBalances = None, data_futuresBalances = None,
               data_positions = None, data_orders = None, data_trades = None \<rparr> \<rparr>"

text \<open>
  A state whose price history is full: 50 points, the two oldest ones set apart
  from the other 48.
\<close>

definition full_history :: "(string \<times> real) list" where
  "full_history = (''09:55:50'', 90) # (''09:55:55'', 91) # replicate 48 (''09:56:00'', 92)"

definition full_dashboard :: "(nat, nat, nat) dashboard" where
  "full_dashboard =
     (initial defaultSettings)
       \<lparr> marketData := Some \<lparr> price = 92, change24h = 1, history = full_history \<rparr> \<rparr>"

text \<open>A scheduler with auto-trading on, a market snapshot and no cycle in flight.\<close>

definition sample_scheduler :: "(nat, nat, nat) scheduler" where
  "sample_scheduler =
     \<lparr> dash = sample_dashboard (sample_settings\<lparr> isAutoTrading := True \<rparr>),
       in_flight = [], sent = [] \<rparr>"

section \<open>Properties of the event ledger\<close>

lemma logs_addLog: "logs (addLog now ty msg s) = take 100 (newLog now ty msg # logs s)"
  by (simp add: addLog_def)

lemma take_append_take: "take n (xs @ take n ys) = take n (xs @ ys)"
  by simp

lemma logs_emit_all:
  "length (logs s) \<le> 100 \<Longrightarrow> logs (emit_all es s) = take 100 (rev (map entry_of es) @ logs s)"
proof (induction es arbitrary: s)
  case Nil
  then show ?case by simp
next
  case (Cons e es)
  obtain now ty msg where e: "e = (now, ty, msg)" by (cases e) auto
  have len: "length (logs (addLog now ty msg s)) \<le> 100"
    by (simp add: logs_addLog)
  have "logs (emit_all (e # es) s) = take 100 (rev (map entry_of es) @ logs (addLog now ty msg s))"
    using Cons.IH [OF len] e by simp
  also have "\<dots> = take 100 (rev (map entry_of es) @ take 100 (newLog now ty msg # logs s))"
    by (simp add: logs_addLog)
  also have "\<dots> = take 100 (rev (map entry_of es) @ newLog now ty msg # logs s)"
    by (rule take_append_take)
  also have "rev (map entry_of es) @ newLog now ty msg # logs s = rev (map entry_of (e # es)) @ logs s"
    by (simp add: e entry_of_def)
  finally show ?case .
qed

lemma length_logs_emit_all:
  "length (logs s) \<le> 100 \<Longrightarrow>
     length (logs (emit_all es s)) = min 100 (length es + length (logs s))"
  by (simp add: logs_emit_all)

text \<open>
  C6. Starting from any ledger of at most 100 entries (the initial ledger is
  empty), after every sequence of emissions the ledger is the 100 newest entries,
  newest first: the emissions in reverse order of emission, followed by the older
  entries, cut at 100. Its length is at most 100, and the clear operation leaves
  it empty.
\<close>

theorem event_ledger_capped_newest_first:
  assumes "length (logs s) \<le> 100"
  shows "logs (emit_all es s) = take 100 (rev (map entry_of es) @ logs s)
       \<and> length (logs (emit_all es s)) \<le> 100
       \<and> logs (clearLogs (emit_all es s)) = []"
  using assms by (simp add: logs_emit_all clearLogs_def)

theorem event_ledger_capped_newest_first_witness:
  "length (logs (initial defaultSettings :: (nat, nat, nat) dashboard)) \<le> 100
   \<and> logs (emit_all [((''1'', ''10:00:00''), SUCCESS, ''Login successful''),
                      ((''2'', ''10:00:30''), ERROR, ''MEXC sync error: timeout'')]
              (initial defaultSettings :: (nat, nat, nat) dashboard))
       = [\<lparr>log_id = ''2'', timestamp = ''10:00:30'', log_type = ERROR,
            message = ''MEXC sync error: timeout''\<rparr>,
          \<lparr>log_id = ''1'', timestamp = ''10:00:00'', log_type = SUCCESS,
            message = ''Login successful''\<rparr>]
   \<and> logs (clearLogs (emit_all [((''1'', ''10:00:00''), SUCCESS, ''Login successful''),
                      ((''2'', ''10:00:30''), ERROR, ''MEXC sync error: timeout'')]
              (initial defaultSettings :: (nat, nat, nat) dashboard))) = []"
  using event_ledger_capped_newest_first
    [of "initial defaultSettings :: (nat, nat, nat) dashboard"
        "[((''1'', ''10:00:00''), SUCCESS, ''Login successful''),
          ((''2'', ''10:00:30''), ERROR, ''MEXC sync error: timeout'')]"]
  by (simp add: initial_def entry_of_def newLog_def)

section \<open>Properties of the market poller\<close>

lemma slice_last_append: "slice_last n (slice_last n xs @ ys) = slice_last n (xs @ ys)"
proof (cases "length xs \<le> n")
  case True
  then show ?thesis by (simp add: slice_last_def)
next
  case False
  then have "length xs + length ys - (length xs - n + n) + (length xs - n) = length xs + length ys - n"
    by arith
  then show ?thesis by (simp add: slice_last_def)
qed

lemma length_slice_last: "length (slice_last n xs) \<le> n"
  by (simp add: slice_last_def)

lemma slice_last_short: "length xs \<le> n \<Longrightarrow> slice_last n xs = xs"
  by (simp add: slice_last_def)

lemma history_refreshMarket_success:
  "history_of (fst (refreshMarket cap currentTime (Inr tk) s))
     = slice_last 50 (history_of s @ [(currentTime, price tk)])"
  by (simp add: refreshMarket_def history_of_def Let_def)

lemma marketData_refreshMarket_failure:
  "marketData (fst (refreshMarket cap currentTime (Inl err) s)) = marketData s"
  by (simp add: refreshMarket_def)

lemma history_refreshMarket_failure:
  "history_of (fst (refreshMarket cap currentTime (Inl err) s)) = history_of s"
  by (simp add: history_of_def marketData_refreshMarket_failure)

lemma history_ticks:
  "length (history_of s) \<le> 50 \<Longrightarrow>
     history_of (ticks ts s) = slice_last 50 (history_of s @ fetched ts)"
proof (induction ts arbitrary: s)
  case Nil
  then show ?case by (simp add: slice_last_short)
next
  case (Cons t ts)
  obtain cap currentTime response where t: "t = (cap, currentTime, response)"
    by (cases t) auto
  show ?case
  proof (cases response)
    case (Inl err)
    have "history_of (ticks (t # ts) s)
            = history_of (ticks ts (fst (refreshMarket cap currentTime (Inl err) s)))"
      by (simp add: t Inl)
    also have "\<dots> = slice_last 50 (history_of s @ fetched ts)"
      using Cons.IH [of "fst (refreshMarket cap currentTime (Inl err) s)"] Cons.prems
      by (simp add: history_refreshMarket_failure)
    finally show ?thesis by (simp add: t Inl)
  next
    case (Inr tk)
    let ?s1 = "fst (refreshMarket cap currentTime (Inr tk) s)"
    have len: "length (history_of ?s1) \<le> 50"
      by (simp only: history_refreshMarket_success length_slice_last)
    have "history_of (ticks (t # ts) s) = history_of (ticks ts ?s1)"
      by (simp add: t Inr)
    also have "\<dots> = slice_last 50 (history_of ?s1 @ fetched ts)"
      by (rule Cons.IH [OF len])
    also have "\<dots> = slice_last 50 ((history_of s @ [(currentTime, price tk)]) @ fetched ts)"
      by (simp only: history_refreshMarket_success slice_last_append)
    finally show ?thesis by (simp add: t Inr)
  qed
qed

lemma length_history_ticks:
  "length (history_of s) \<le> 50 \<Longrightarrow>
     length (history_of (ticks ts s)) = min 50 (length (history_of s) + length (fetched ts))"
  by (simp add: history_ticks slice_last_def)

lemma rev_slice_last: "rev (slice_last n xs) = take n (rev xs)"
proof (cases "length xs \<le> n")
  case True
  then show ?thesis by (simp add: slice_last_def)
next
  case False
  then have "length xs - (length xs - n) = n" by arith
  then show ?thesis by (simp add: slice_last_def rev_drop)
qed

text \<open>
  C5. Starting from any history of at most 50 points (there is none before the
  first success), after every sequence of ticks the price history is what is left
  of the old points followed by the points of the successful ticks, in the order
  of the ticks, when all but the last 50 are dropped from the front: read from the
  newest point backwards, it is the 50 most recent points. Its length is at most
  50, and a failed fetch leaves the market snapshot as it was.
\<close>

theorem price_history_last_50_fetches:
  assumes "length (history_of s) \<le> 50"
  shows "history_of (ticks ts s)
           = drop (length (history_of s @ fetched ts) - 50) (history_of s @ fetched ts)
       \<and> rev (history_of (ticks ts s)) = take 50 (rev (history_of s @ fetched ts))
       \<and> length (history_of (ticks ts s)) \<le> 50
       \<and> marketData (fst (refreshMarket cap currentTime (Inl err) s)) = marketData s"
proof -
  have eq: "history_of (ticks ts s) = slice_last 50 (history_of s @ fetched ts)"
    using assms by (rule history_ticks)
  have "history_of (ticks ts s)
          = drop (length (history_of s @ fetched ts) - 50) (history_of s @ fetched ts)"
    unfolding eq by (simp only: slice_last_def)
  moreover have "rev (history_of (ticks ts s)) = take 50 (rev (history_of s @ fetched ts))"
    unfolding eq by (rule rev_slice_last)
  moreover have "length (history_of (ticks ts s)) \<le> 50"
    unfolding eq by (rule length_slice_last)
  moreover have "marketData (fst (refreshMarket cap currentTime (Inl err) s)) = marketData s"
    by (rule marketData_refreshMarket_failure)
  ultimately show ?thesis by blast
qed

lemma history_of_full_dashboard: "history_of full_dashboard = full_history"
  by (simp add: history_of_def full_dashboard_def)

lemma length_full_history: "length full_history = 50"
  by (simp add: full_history_def)

theorem price_history_last_50_fetches_witness:
  "length (history_of full_dashboard) \<le> 50
   \<and> history_of full_dashboard
       = (''09:55:50'', 90) # (''09:55:55'', 91) # replicate 48 (''09:56:00'', 92)
   \<and> history_of (ticks [(full_dashboard, ''10:00:00'', Inr \<lparr>price = 100, change24h = 1\<rparr>),
                         (full_dashboard, ''10:00:05'', Inl (Error ''Market API error'')),
                         (full_dashboard, ''10:00:10'', Inr \<lparr>price = 101, change24h = 2\<rparr>)]
                  full_dashboard)
       = replicate 48 (''09:56:00'', 92) @ [(''10:00:00'', 100), (''10:00:10'', 101)]
   \<and> marketData (fst (refreshMarket full_dashboard ''10:00:05''
                         (Inl (Error ''Market API error'')) full_dashboard))
       = marketData full_dashboard"
  using price_history_last_50_fetches
    [where s = full_dashboard
       and ts = "[(full_dashboard, ''10:00:00'', Inr \<lparr>price = 100, change24h = 1\<rparr>),
                  (full_dashboard, ''10:00:05'', Inl (Error ''Market API error'')),
                  (full_dashboard, ''10:00:10'', Inr \<lparr>price = 101, change24h = 2\<rparr>)]"
       and cap = full_dashboard
       and currentTime = "''10:00:05''" and err = "Error ''Market API error''"]
  by (simp add: history_of_full_dashboard length_full_history) (simp add: full_history_def)

section \<open>Properties of the account synchronizer\<close>

lemma refreshAccountData_unmet:
  "mexcApiKey (settings cap) = [] \<or> mexcSecretKey (settings cap) = [] \<or> \<not> isLoggedIn cap \<Longrightarrow>
     refreshAccountData cap now response s = (s\<lparr> mexcStatus := DISCONNECTED \<rparr>, [])"
  by (simp add: refreshAccountData_def)

lemma refreshAccountData_thrown:
  "mexcApiKey (settings cap) \<noteq> [] \<Longrightarrow> mexcSecretKey (settings cap) \<noteq> [] \<Longrightarrow> isLoggedIn cap \<Longrightarrow>
   sync_try response = Inl e \<Longrightarrow>
     refreshAccountData cap now response s =
       ((addLog now ERROR (''MEXC sync error: '' @ error_message e) s)\<lparr> mexcStatus := ERROR_STATUS \<rparr>,
        [account_request cap])"
  by (simp add: refreshAccountData_def)

lemma refreshAccountData_synced:
  "mexcApiKey (settings cap) \<noteq> [] \<Longrightarrow> mexcSecretKey (settings cap) \<noteq> [] \<Longrightarrow> isLoggedIn cap \<Longrightarrow>
   sync_try response = Inr data \<Longrightarrow>
     refreshAccountData cap now response s =
       (addLog now SUCCESS ''MEXC account synced successfully''
          (s\<lparr> spotBalances := or_empty (data_spotBalances data),
              futuresBalances := or_empty (data_futuresBalances data),
              mexcPositions := or_empty (data_positions data),
              mexcOrders := or_empty (data_orders data),
              mexcTrades := or_empty (data_trades data),
              mexcStatus := CONNECTED \<rparr>),
        [account_request cap])"
  by (simp add: refreshAccountData_def)

lemma sync_try_error_payload:
  "data_error data = Some m \<Longrightarrow> m \<noteq> [] \<Longrightarrow> sync_try (Inr data) = Inl (Error m)"
  by simp

lemma sync_try_no_error:
  "data_error data = None \<or> data_error data = Some [] \<Longrightarrow> sync_try (Inr data) = Inr data"
  by auto

text \<open>
  C4. A run of the account synchronizer that passes its guard and fails, by a
  rejected or unreadable response or by a payload whose \<^verbatim>\<open>error\<close> field holds a
  reason, leaves the five account collections at their values before the call,
  sets the connection status to the error status, and puts at the head of the
  ledger an \<open>ERROR\<close> entry whose message ends with the reason.
\<close>

theorem failed_sync_keeps_account_state:
  assumes "mexcApiKey (settings cap) \<noteq> []" and "mexcSecretKey (settings cap) \<noteq> []"
    and "isLoggedIn cap"
    and "response = Inl e
         \<or> (\<exists>data m. response = Inr data \<and> data_error data = Some m \<and> m \<noteq> [] \<and> e = Error m)"
  shows "spotBalances (fst (refreshAccountData cap now response s)) = spotBalances s
       \<and> futuresBalances (fst (refreshAccountData cap now response s)) = futuresBalances s
       \<and> mexcPositions (fst (refreshAccountData cap now response s)) = mexcPositions s
       \<and> mexcOrders (fst (refreshAccountData cap now response s)) = mexcOrders s
       \<and> mexcTrades (fst (refreshAccountData cap now response s)) = mexcTrades s
       \<and> mexcStatus (fst (refreshAccountData cap now response s)) = ERROR_STATUS
       \<and> logs (fst (refreshAccountData cap now response s))
           = take 100 (newLog now ERROR (''MEXC sync error: '' @ error_message e) # logs s)"
proof -
  from assms(4) have "sync_try response = Inl e"
    by (auto simp: sync_try_error_payload)
  from refreshAccountData_thrown [OF assms(1-3) this]
  show ?thesis by (simp add: addLog_def)
qed

text \<open>
  C8. When either exchange credential is empty or no session is signed in, the
  account synchronizer sends no request, sets the connection status to
  \<open>DISCONNECTED\<close> and writes no log entry, so no \<open>ERROR\<close> entry.
\<close>

theorem unmet_preconditions_disconnect:
  assumes "mexcApiKey (settings cap) = [] \<or> mexcSecretKey (settings cap) = [] \<or> \<not> isLoggedIn cap"
  shows "snd (refreshAccountData cap now response s) = []
       \<and> mexcStatus (fst (refreshAccountData cap now response s)) = DISCONNECTED
       \<and> logs (fst (refreshAccountData cap now response s)) = logs s"
  by (simp add: refreshAccountData_unmet [OF assms])

text \<open>
  C9. After a successful run of the account synchronizer each of the five
  collections is the payload's collection, or the empty list when the payload
  omits it: no collection keeps its value from before the call.
\<close>

theorem successful_sync_replaces_every_collection:
  assumes "mexcApiKey (settings cap) \<noteq> []" and "mexcSecretKey (settings cap) \<noteq> []"
    and "isLoggedIn cap"
    and "response = Inr data"
    and "data_error data = None \<or> data_error data = Some []"
  shows "spotBalances (fst (refreshAccountData cap now response s)) = or_empty (data_spotBalances data)
       \<and> futuresBalances (fst (refreshAccountData cap now response s)) = or_empty (data_futuresBalances data)
       \<and> mexcPositions (fst (refreshAccountData cap now response s)) = or_empty (data_positions data)
       \<and> mexcOrders (fst (refreshAccountData cap now response s)) = or_empty (data_orders data)
       \<and> mexcTrades (fst (refreshAccountData cap now response s)) = or_empty (data_trades data)
       \<and> (data_spotBalances data = None \<longrightarrow> spotBalances (fst (refreshAccountData cap now response s)) = [])
       \<and> (data_futuresBalances data = None \<longrightarrow> futuresBalances (fst (refreshAccountData cap now response s)) = [])
       \<and> (data_positions data = None \<longrightarrow> mexcPositions (fst (refreshAccountData cap now response s)) = [])
       \<and> (data_orders data = None \<longrightarrow> mexcOrders (fst (refreshAccountData cap now response s)) = [])
       \<and> (data_trades data = None \<longrightarrow> mexcTrades (fst (refreshAccountData cap now response s)) = [])"
proof -
  from assms(4,5) have "sync_try response = Inr data"
    using sync_try_no_error [of data] by blast
  from refreshAccountData_synced [OF assms(1-3) this]
  show ?thesis by (simp add: addLog_def)
qed


theorem failed_sync_keeps_account_state_witness:
  "mexcApiKey (settings (sample_dashboard sample_settings)) \<noteq> []
   \<and> mexcSecretKey (settings (sample_dashboard sample_settings)) \<noteq> []
   \<and> isLoggedIn (sample_dashboard sample_settings)
   \<and> spotBalances (sample_dashboard sample_settings) = [1, 2]
   \<and> refreshAccountData (sample_dashboard sample_settings) (''7'', ''10:00:30'')
        (Inr \<lparr>data_error = Some ''Invalid API key'', data_spotBalances = Some [9],
              data_futuresBalances = None, data_positions = None, data_orders = None,
              data_trades = None\<rparr>)
        (sample_dashboard sample_settings)
      = ((sample_dashboard sample_settings)
           \<lparr>logs := [\<lparr>log_id = ''7'', timestamp = ''10:00:30'', log_type = ERROR,
                       message = ''MEXC sync error: Invalid API key''\<rparr>],
             mexcStatus := ERROR_STATUS\<rparr>,
         [AccountRequest ''key'' ''secret'' ''BTCUSDT''])"
  using failed_sync_keeps_account_state
    [where cap = "sample_dashboard sample_settings"
       and response = "Inr \<lparr>data_error = Some ''Invalid API key'', data_spotBalances = Some [9],
              data_futuresBalances = None, data_positions = None, data_orders = None,
              data_trades = None\<rparr>"
       and e = "Error ''Invalid API key''"
       and now = "(''7'', ''10:00:30'')"
       and s = "sample_dashboard sample_settings"]
  by (simp add: sample_dashboard_def sample_settings_def initial_def defaultSettings_def
        refreshAccountData_def account_request_def addLog_def newLog_def)

theorem unmet_preconditions_disconnect_witness:
  "mexcApiKey (settings (sample_dashboard defaultSettings)) = []
   \<and> refreshAccountData (sample_dashboard defaultSettings) (''7'', ''10:00:30'')
        (Inl (Error ''unreachable'')) (sample_dashboard defaultSettings)
      = ((sample_dashboard defaultSettings)\<lparr>mexcStatus := DISCONNECTED\<rparr>, [])
   \<and> logs ((sample_dashboard defaultSettings)\<lparr>mexcStatus := DISCONNECTED\<rparr>) = []"
  using unmet_preconditions_disconnect
    [where cap = "sample_dashboard defaultSettings" and now = "(''7'', ''10:00:30'')"
       and response = "Inl (Error ''unreachable'')" and s = "sample_dashboard defaultSettings"]
  by (simp add: sample_dashboard_def initial_def defaultSettings_def refreshAccountData_def)

theorem successful_sync_replaces_every_collection_witness:
  "mexcApiKey (settings (sample_dashboard sample_settings)) \<noteq> []
   \<and> mexcSecretKey (settings (sample_dashboard sample_settings)) \<noteq> []
   \<and> isLoggedIn (sample_dashboard sample_settings)
   \<and> spotBalances (sample_dashboard sample_settings) = [1, 2]
   \<and> mexcOrders (sample_dashboard sample_settings) = [3]
   \<and> refreshAccountData (sample_dashboard sample_settings) (''7'', ''10:00:30'')
        (Inr \<lparr>data_error = None, data_spotBalances = None,
              data_futuresBalances = None, data_positions = None, data_orders = None,
              data_trades = None\<rparr>)
        (sample_dashboard sample_settings)
      = ((sample_dashboard sample_settings)
           \<lparr>spotBalances := [], mexcOrders := [],
             logs := [\<lparr>log_id = ''7'', timestamp = ''10:00:30'', log_type = SUCCESS,
                       message = ''MEXC account synced successfully''\<rparr>]\<rparr>,
         [AccountRequest ''key'' ''secret'' ''BTCUSDT''])"
  using successful_sync_replaces_every_collection
    [where cap = "sample_dashboard sample_settings"
       and response = "Inr \<lparr>data_error = None, data_spotBalances = None,
              data_futuresBalances = None, data_positions = None, data_orders = None,
              data_trades = None\<rparr>"
       and data = "\<lparr>data_error = None, data_spotBalances = None,
              data_futuresBalances = None, data_positions = None, data_orders = None,
              data_trades = None\<rparr>"
       and now = "(''7'', ''10:00:30'')"
       and s = "sample_dashboard sample_settings"]
  by (simp add: sample_dashboard_def sample_settings_def initial_def defaultSettings_def
        refreshAccountData_def account_request_def addLog_def newLog_def)

section \<open>Properties of the decision cycle\<close>

lemma runTradingCycle_idle:
  "\<not> isAutoTrading (settings cap) \<or> marketData cap = None \<Longrightarrow> runTradingCycle cap env s = (s, [])"
  by (auto simp: runTradingCycle_def cycle_start_def)

lemma runTradingCycle_oracle_failed:
  "isAutoTrading (settings cap) \<Longrightarrow> marketData cap = Some md \<Longrightarrow> analyze_response env = Inl err \<Longrightarrow>
     runTradingCycle cap env s =
       (cycle_catch (failure_stamp env) err (s\<lparr> isAnalyzing := True \<rparr>), [analyze_request cap md])"
  by (simp add: runTradingCycle_def cycle_start_def cycle_after_oracle_def)

lemma runTradingCycle_wait:
  "isAutoTrading (settings cap) \<Longrightarrow> marketData cap = Some md \<Longrightarrow> analyze_response env = Inr (Some d) \<Longrightarrow>
   action d = ''WAIT'' \<Longrightarrow>
     runTradingCycle cap env s =
       (s\<lparr> isAnalyzing := False, lastAction := Some d \<rparr>, [analyze_request cap md])"
  by (simp add: runTradingCycle_def cycle_start_def cycle_after_oracle_def)

lemma runTradingCycle_simulated:
  "isAutoTrading (settings cap) \<Longrightarrow> marketData cap = Some md \<Longrightarrow> analyze_response env = Inr (Some d) \<Longrightarrow>
   action d \<noteq> ''WAIT'' \<Longrightarrow> \<not> isLiveMode (settings cap) \<Longrightarrow>
     runTradingCycle cap env s =
       ((addLog (trade_stamp env) TRADE
           (''AI decision: '' @ action d @ '' ('' @ show_int (confidence d) @ ''%)'')
           (s\<lparr> isAnalyzing := True, lastAction := Some d \<rparr>))\<lparr> isAnalyzing := False \<rparr>,
        [analyze_request cap md])"
  by (simp add: runTradingCycle_def cycle_start_def cycle_after_oracle_def Let_def)

lemma runTradingCycle_live_rejected:
  "isAutoTrading (settings cap) \<Longrightarrow> marketData cap = Some md \<Longrightarrow> analyze_response env = Inr (Some d) \<Longrightarrow>
   action d \<noteq> ''WAIT'' \<Longrightarrow> isLiveMode (settings cap) \<Longrightarrow> trade_response env = Inl err \<Longrightarrow>
     runTradingCycle cap env s =
       (cycle_catch (failure_stamp env) err
          (addLog (trade_stamp env) TRADE
             (''AI decision: '' @ action d @ '' ('' @ show_int (confidence d) @ ''%)'')
             (s\<lparr> isAnalyzing := True, lastAction := Some d \<rparr>)),
        [analyze_request cap md, trade_request cap md d])"
  by (simp add: runTradingCycle_def cycle_start_def cycle_after_oracle_def cycle_after_exchange_def Let_def)

lemma runTradingCycle_live_submitted:
  "isAutoTrading (settings cap) \<Longrightarrow> marketData cap = Some md \<Longrightarrow> analyze_response env = Inr (Some d) \<Longrightarrow>
   action d \<noteq> ''WAIT'' \<Longrightarrow> isLiveMode (settings cap) \<Longrightarrow> trade_response env = Inr ok \<Longrightarrow>
     runTradingCycle cap env s =
       ((fst (refreshAccountData cap (sync_stamp env) (account_response env)
          (addLog (trade_stamp env) TRADE
             (''AI decision: '' @ action d @ '' ('' @ show_int (confidence d) @ ''%)'')
             (s\<lparr> isAnalyzing := True, lastAction := Some d \<rparr>))))\<lparr> isAnalyzing := False \<rparr>,
        analyze_request cap md # trade_request cap md d
          # snd (refreshAccountData cap (sync_stamp env) (account_response env)
          (addLog (trade_stamp env) TRADE
             (''AI decision: '' @ action d @ '' ('' @ show_int (confidence d) @ ''%)'')
             (s\<lparr> isAnalyzing := True, lastAction := Some d \<rparr>))))"
  by (simp add: runTradingCycle_def cycle_start_def cycle_after_oracle_def cycle_after_exchange_def Let_def
        split: prod.splits)

lemma not_trade_account_calls:
  "\<not> list_ex is_trade_request (snd (refreshAccountData cap now response s))"
  by (simp add: refreshAccountData_def account_request_def split: sum.splits)

lemma trade_request_is [simp]: "is_trade_request (trade_request cap md d)"
  by (simp add: trade_request_def)

lemma analyze_request_is [simp]: "is_analyze_request (analyze_request cap md)"
  by (simp add: analyze_request_def)

lemma analyze_request_not_trade [simp]: "\<not> is_trade_request (analyze_request cap md)"
  by (simp add: analyze_request_def)

lemma runTradingCycle_null_body:
  "isAutoTrading (settings cap) \<Longrightarrow> marketData cap = Some md \<Longrightarrow> analyze_response env = Inr None \<Longrightarrow>
     runTradingCycle cap env s =
       (cycle_catch (failure_stamp env) (null_read env)
          (s\<lparr> isAnalyzing := True, lastAction := None \<rparr>),
        [analyze_request cap md])"
  by (simp add: runTradingCycle_def cycle_start_def cycle_after_oracle_def)

lemma trade_sent_iff:
  "list_ex is_trade_request (snd (runTradingCycle cap env s)) \<longleftrightarrow>
     isAutoTrading (settings cap) \<and> isLiveMode (settings cap)
     \<and> marketData cap \<noteq> None
     \<and> (case analyze_response env of
          Inl err \<Rightarrow> False
        | Inr None \<Rightarrow> False
        | Inr (Some d) \<Rightarrow> action d \<noteq> ''WAIT'')"
proof (cases "isAutoTrading (settings cap) \<and> marketData cap \<noteq> None")
  case False
  then show ?thesis using runTradingCycle_idle [of cap env s] by auto
next
  case True
  then obtain md where md: "marketData cap = Some md" and auto: "isAutoTrading (settings cap)"
    by auto
  show ?thesis
  proof (cases "analyze_response env")
    case (Inl err)
    then show ?thesis
      by (simp add: runTradingCycle_oracle_failed [OF auto md Inl])
  next
    case (Inr body)
    show ?thesis
    proof (cases body)
      case None
      with Inr have null: "analyze_response env = Inr None" by simp
      show ?thesis
        by (simp add: runTradingCycle_null_body [OF auto md null] null)
    next
      case (Some d)
      with Inr have Inr: "analyze_response env = Inr (Some d)" by simp
      show ?thesis
      proof (cases "action d = ''WAIT''")
        case True
        then show ?thesis by (simp add: runTradingCycle_wait [OF auto md Inr True] Inr)
      next
        case notwait: False
        show ?thesis
        proof (cases "isLiveMode (settings cap)")
          case False
          then show ?thesis
            by (simp add: runTradingCycle_simulated [OF auto md Inr notwait False] Inr)
        next
          case live: True
          show ?thesis
          proof (cases "trade_response env")
            case (Inl err)
            then show ?thesis
              by (simp add: runTradingCycle_live_rejected [OF auto md Inr notwait live Inl]
                    Inr notwait live auto md)
          next
            case r: (Inr ok)
            then show ?thesis
              by (simp add: runTradingCycle_live_submitted [OF auto md Inr notwait live r]
                    Inr notwait live auto md)
          qed
        qed
      qed
    qed
  qed
qed

text \<open>
  C1. In a decision cycle with a market snapshot in which the oracle returns the
  decision \<open>d\<close>, the order submission is sent if and only if auto-trading is on,
  live mode is on and the action of \<open>d\<close> is not \<^verbatim>\<open>WAIT\<close>. In simulation mode
  (live mode off, auto-trading on) with an action other than \<^verbatim>\<open>WAIT\<close>, the
  decision is stored, a \<open>TRADE\<close> entry that records action and confidence goes to
  the head of the ledger, and no order submission is sent.
\<close>

theorem executor_invoked_iff_live_auto_not_wait:
  assumes "marketData cap = Some md" and "analyze_response env = Inr (Some d)"
  shows "(list_ex is_trade_request (snd (runTradingCycle cap env s)) \<longleftrightarrow>
            isAutoTrading (settings cap) \<and> isLiveMode (settings cap) \<and> action d \<noteq> ''WAIT'')
       \<and> (isAutoTrading (settings cap) \<and> \<not> isLiveMode (settings cap) \<and> action d \<noteq> ''WAIT'' \<longrightarrow>
            logs (fst (runTradingCycle cap env s))
              = take 100 (newLog (trade_stamp env) TRADE
                            (''AI decision: '' @ action d @ '' ('' @ show_int (confidence d) @ ''%)'')
                          # logs s)
            \<and> lastAction (fst (runTradingCycle cap env s)) = Some d
            \<and> \<not> list_ex is_trade_request (snd (runTradingCycle cap env s)))"
proof -
  have iff: "list_ex is_trade_request (snd (runTradingCycle cap env s)) \<longleftrightarrow>
            isAutoTrading (settings cap) \<and> isLiveMode (settings cap) \<and> action d \<noteq> ''WAIT''"
    by (simp add: trade_sent_iff assms)
  have sim: "logs (fst (runTradingCycle cap env s))
              = take 100 (newLog (trade_stamp env) TRADE
                            (''AI decision: '' @ action d @ '' ('' @ show_int (confidence d) @ ''%)'')
                          # logs s)
            \<and> lastAction (fst (runTradingCycle cap env s)) = Some d"
    if "isAutoTrading (settings cap)" and "\<not> isLiveMode (settings cap)" and "action d \<noteq> ''WAIT''"
    using runTradingCycle_simulated [OF that(1) assms(1) assms(2) that(3) that(2), of s]
    by (simp add: addLog_def)
  from iff sim show ?thesis by blast
qed

lemma show_int_80: "show_int 80 = ''80''"
  by (simp add: show_int_def show_nat.simps [of 80] show_nat.simps [of 8])

theorem executor_invoked_iff_live_auto_not_wait_witness:
  "marketData (sample_dashboard (sample_settings\<lparr>isAutoTrading := True\<rparr>)) = Some sample_market
   \<and> analyze_response sample_env = Inr (Some sample_decision)
   \<and> isAutoTrading (settings (sample_dashboard (sample_settings\<lparr>isAutoTrading := True\<rparr>)))
   \<and> \<not> isLiveMode (settings (sample_dashboard (sample_settings\<lparr>isAutoTrading := True\<rparr>)))
   \<and> action sample_decision \<noteq> ''WAIT''
   \<and> logs (fst (runTradingCycle (sample_dashboard (sample_settings\<lparr>isAutoTrading := True\<rparr>))
                  sample_env (sample_dashboard (sample_settings\<lparr>isAutoTrading := True\<rparr>))))
       = [\<lparr>log_id = ''1'', timestamp = ''10:01:00'', log_type = TRADE,
            message = ''AI decision: LONG (80%)''\<rparr>]
   \<and> lastAction (fst (runTradingCycle (sample_dashboard (sample_settings\<lparr>isAutoTrading := True\<rparr>))
                  sample_env (sample_dashboard (sample_settings\<lparr>isAutoTrading := True\<rparr>))))
       = Some \<lparr>action = ''LONG'', confidence = 80, reason = ''momentum''\<rparr>
   \<and> \<not> list_ex is_trade_request
         (snd (runTradingCycle (sample_dashboard (sample_settings\<lparr>isAutoTrading := True\<rparr>))
                  sample_env (sample_dashboard (sample_settings\<lparr>isAutoTrading := True\<rparr>))))"
  using executor_invoked_iff_live_auto_not_wait
    [where cap = "sample_dashboard (sample_settings\<lparr>isAutoTrading := True\<rparr>)"
       and md = sample_market and env = sample_env and d = sample_decision
       and s = "sample_dashboard (sample_settings\<lparr>isAutoTrading := True\<rparr>)"]
  by (simp add: sample_dashboard_def sample_settings_def sample_env_def sample_decision_def
        initial_def defaultSettings_def newLog_def show_int_80)

text \<open>
  A decision cycle in which the promise of the oracle's call rejects: an \<open>ERROR\<close>
  entry with the failure message goes to the head of the ledger, the last decision
  stays as it was, and the cycle ends having sent the request to the oracle only.
\<close>

lemma rejected_oracle_call_keeps_decision:
  assumes "isAutoTrading (settings cap)" and "marketData cap = Some md"
    and "analyze_response env = Inl err"
  shows "logs (fst (runTradingCycle cap env s))
           = take 100 (newLog (failure_stamp env) ERROR
                         (''AI analysis failed: '' @ error_message err) # logs s)
       \<and> lastAction (fst (runTradingCycle cap env s)) = lastAction s
       \<and> snd (runTradingCycle cap env s) = [analyze_request cap md]
       \<and> \<not> list_ex is_trade_request (snd (runTradingCycle cap env s))"
  by (simp add: runTradingCycle_oracle_failed [OF assms] cycle_catch_def addLog_def)

text \<open>
  A decision cycle in which the oracle answers with the body \<^verbatim>\<open>null\<close>: the same
  \<open>ERROR\<close> entry, with the message of the \<^verbatim>\<open>TypeError\<close>, and no order
  submission, but the last decision is gone.
\<close>

lemma null_body_loses_decision:
  assumes "isAutoTrading (settings cap)" and "marketData cap = Some md"
    and "analyze_response env = Inr None"
  shows "logs (fst (runTradingCycle cap env s))
           = take 100 (newLog (failure_stamp env) ERROR
                         (''AI analysis failed: '' @ error_message (null_read env)) # logs s)
       \<and> lastAction (fst (runTradingCycle cap env s)) = None
       \<and> snd (runTradingCycle cap env s) = [analyze_request cap md]
       \<and> \<not> list_ex is_trade_request (snd (runTradingCycle cap env s))"
  by (simp add: runTradingCycle_null_body [OF assms] cycle_catch_def addLog_def)

text \<open>
  C7, at an input where the code does not do what the claim says. Auto-trading is
  on, a market snapshot is present, the last decision is \<^verbatim>\<open>LONG\<close> with confidence
  80, and the oracle answers with the body \<^verbatim>\<open>null\<close>. Line 175 stores \<^verbatim>\<open>null\<close>
  as the last decision before line 177 throws on reading its action: the cycle
  ends in the \<^verbatim>\<open>catch\<close> with an \<open>ERROR\<close> entry and without an order
  submission, and the last decision is not the one from before the cycle.
\<close>

theorem null_body_overwrites_last_decision:
  "runTradingCycle (sample_dashboard (sample_settings\<lparr>isAutoTrading := True, isLiveMode := True\<rparr>))
     (sample_env\<lparr>analyze_response := Inr None\<rparr>)
     ((sample_dashboard (sample_settings\<lparr>isAutoTrading := True, isLiveMode := True\<rparr>))
        \<lparr>lastAction := Some sample_decision\<rparr>)
   = ((sample_dashboard (sample_settings\<lparr>isAutoTrading := True, isLiveMode := True\<rparr>))
        \<lparr>lastAction := None,
          logs := [\<lparr>log_id = ''2'', timestamp = ''10:01:01'', log_type = ERROR,
                    message = ''AI analysis failed: Cannot read properties of null''\<rparr>]\<rparr>,
      [AnalyzeRequest ''gemini'' [] [] [] ''BTCUSDT'' 10 sample_market ''NONE''])
   \<and> lastAction ((sample_dashboard (sample_settings\<lparr>isAutoTrading := True, isLiveMode := True\<rparr>))
        \<lparr>lastAction := Some sample_decision\<rparr>) = Some sample_decision
   \<and> lastAction (fst (runTradingCycle
         (sample_dashboard (sample_settings\<lparr>isAutoTrading := True, isLiveMode := True\<rparr>))
         (sample_env\<lparr>analyze_response := Inr None\<rparr>)
         ((sample_dashboard (sample_settings\<lparr>isAutoTrading := True, isLiveMode := True\<rparr>))
            \<lparr>lastAction := Some sample_decision\<rparr>))) = None"
  by (simp add: sample_dashboard_def sample_settings_def sample_env_def
        initial_def defaultSettings_def newLog_def runTradingCycle_def cycle_start_def
        cycle_after_oracle_def cycle_catch_def addLog_def analyze_request_def)

text \<open>
  C2, at an input where the code does not do what the claim says. Live mode and
  auto-trading are on, both credentials are set, the session is signed in, the
  oracle returns \<^verbatim>\<open>LONG\<close> with confidence 80, and the order submission is
  rejected. The rejection leaves the \<^verbatim>\<open>try\<close> block before line 189: the run
  logs it as a failed analysis and ends, and no account request follows the order
  submission.
\<close>

theorem rejected_submission_skips_refresh:
  "runTradingCycle (sample_dashboard (sample_settings\<lparr>isAutoTrading := True, isLiveMode := True\<rparr>))
     sample_env (sample_dashboard (sample_settings\<lparr>isAutoTrading := True, isLiveMode := True\<rparr>))
   = ((sample_dashboard (sample_settings\<lparr>isAutoTrading := True, isLiveMode := True\<rparr>))
        \<lparr>lastAction := Some sample_decision,
          logs := [\<lparr>log_id = ''2'', timestamp = ''10:01:01'', log_type = ERROR,
                    message = ''AI analysis failed: Failed to fetch''\<rparr>,
                   \<lparr>log_id = ''1'', timestamp = ''10:01:00'', log_type = TRADE,
                    message = ''AI decision: LONG (80%)''\<rparr>]\<rparr>,
      [AnalyzeRequest ''gemini'' [] [] [] ''BTCUSDT'' 10 sample_market ''NONE'',
       TradeRequest ''LONG'' ''key'' ''secret'' ''BTCUSDT'' 10 100])
   \<and> \<not> list_ex is_account_request
         (snd (runTradingCycle
                 (sample_dashboard (sample_settings\<lparr>isAutoTrading := True, isLiveMode := True\<rparr>))
                 sample_env
                 (sample_dashboard (sample_settings\<lparr>isAutoTrading := True, isLiveMode := True\<rparr>))))"
  by (simp add: sample_dashboard_def sample_settings_def sample_env_def sample_decision_def
        sample_market_def
        initial_def defaultSettings_def newLog_def runTradingCycle_def cycle_start_def
        cycle_after_oracle_def cycle_after_exchange_def cycle_catch_def addLog_def
        analyze_request_def trade_request_def show_int_80)

text \<open>
  The same cycle when the exchange accepts the order: the account refresh follows
  the submission.
\<close>

lemma accepted_submission_refreshes:
  "runTradingCycle (sample_dashboard (sample_settings\<lparr>isAutoTrading := True, isLiveMode := True\<rparr>))
     (sample_env\<lparr>trade_response := Inr ()\<rparr>)
     (sample_dashboard (sample_settings\<lparr>isAutoTrading := True, isLiveMode := True\<rparr>))
   = ((sample_dashboard (sample_settings\<lparr>isAutoTrading := True, isLiveMode := True\<rparr>))
        \<lparr>spotBalances := [], mexcOrders := [], 
          lastAction := Some sample_decision,
          logs := [\<lparr>log_id = ''3'', timestamp = ''10:01:02'', log_type = SUCCESS,
                    message = ''MEXC account synced successfully''\<rparr>,
                   \<lparr>log_id = ''1'', timestamp = ''10:01:00'', log_type = TRADE,
                    message = ''AI decision: LONG (80%)''\<rparr>]\<rparr>,
      [AnalyzeRequest ''gemini'' [] [] [] ''BTCUSDT'' 10 sample_market ''NONE'',
       TradeRequest ''LONG'' ''key'' ''secret'' ''BTCUSDT'' 10 100,
       AccountRequest ''key'' ''secret'' ''BTCUSDT''])"
  by (simp add: sample_dashboard_def sample_settings_def sample_env_def sample_decision_def
        sample_market_def
        initial_def defaultSettings_def newLog_def runTradingCycle_def cycle_start_def
        cycle_after_oracle_def cycle_after_exchange_def cycle_catch_def addLog_def
        analyze_request_def trade_request_def show_int_80 refreshAccountData_def account_request_def)

section \<open>Properties of the decision cycle scheduler\<close>

lemma length_remove_at: "length (remove_at i xs) \<le> length xs"
  by (simp add: remove_at_def)

lemma in_flight_step_fire:
  "length (in_flight (step Fire \<sigma>))
     = (if cycle_start (dash \<sigma>) (dash \<sigma>) = None then length (in_flight \<sigma>)
        else Suc (length (in_flight \<sigma>)))"
  by (auto split: option.splits)

lemma in_flight_step_settles:
  "\<not> is_fire e \<Longrightarrow> length (in_flight (step e \<sigma>)) \<le> length (in_flight \<sigma>)"
  by (cases e) (auto simp: length_remove_at split: prod.splits)

lemma step_keeps_one:
  assumes "length (in_flight \<sigma>) \<le> 1" and "if is_fire e then in_flight \<sigma> = [] else True"
  shows "length (in_flight (step e \<sigma>)) \<le> 1"
proof (cases "is_fire e")
  case True
  then have e: "e = Fire" by (cases e) auto
  from True assms(2) have "in_flight \<sigma> = []" by simp
  then show ?thesis unfolding e in_flight_step_fire by simp
next
  case False
  from in_flight_step_settles [OF False, of \<sigma>] assms(1) show ?thesis by simp
qed

lemma spaced_run_keeps_one:
  "length (in_flight \<sigma>) \<le> 1 \<Longrightarrow> spaced es \<sigma> \<Longrightarrow> length (in_flight (run es \<sigma>)) \<le> 1"
proof (induction es arbitrary: \<sigma>)
  case Nil
  then show ?case by simp
next
  case (Cons e es)
  from Cons.prems have "length (in_flight (step e \<sigma>)) \<le> 1"
    by (intro step_keeps_one) simp_all
  moreover from Cons.prems have "spaced es (step e \<sigma>)" by simp
  ultimately show ?case using Cons.IH by simp
qed

lemma spaced_take: "spaced es \<sigma> \<Longrightarrow> spaced (take n es) \<sigma>"
proof (induction es arbitrary: \<sigma> n)
  case Nil
  then show ?case by simp
next
  case (Cons e es)
  then show ?case by (cases n) simp_all
qed

lemma cycle_start_guard:
  "cycle_start cap s \<noteq> None \<longleftrightarrow> isAutoTrading (settings cap) \<and> marketData cap \<noteq> None"
  by (auto simp: cycle_start_def split: option.splits)

text \<open>
  C3, as the code has it. The scheduler keeps no record of a running cycle: a
  call of \<^verbatim>\<open>runTradingCycle\<close> with auto-trading on and a market snapshot present
  starts a cycle whatever is in flight (second part). So at most one cycle is in
  flight, at every point of an execution, when the execution is spaced: every
  call comes after the earlier cycle's calls have settled (first part).
\<close>

theorem spaced_cycles_do_not_overlap:
  assumes "length (in_flight \<sigma>) \<le> 1" and "spaced es \<sigma>"
  shows "length (in_flight (run (take n es) \<sigma>)) \<le> 1
       \<and> (isAutoTrading (settings (dash \<sigma>')) \<and> marketData (dash \<sigma>') \<noteq> None \<longrightarrow>
            length (in_flight (step Fire \<sigma>')) = Suc (length (in_flight \<sigma>')))"
proof -
  have "length (in_flight (run (take n es) \<sigma>)) \<le> 1"
    using assms by (intro spaced_run_keeps_one spaced_take)
  moreover have "length (in_flight (step Fire \<sigma>')) = Suc (length (in_flight \<sigma>'))"
    if "isAutoTrading (settings (dash \<sigma>')) \<and> marketData (dash \<sigma>') \<noteq> None"
    using that cycle_start_guard [of "dash \<sigma>'" "dash \<sigma>'"]
    by (simp add: in_flight_step_fire del: step.simps)
  ultimately show ?thesis by blast
qed

text \<open>
  C3, as stated, fails: two calls of \<^verbatim>\<open>runTradingCycle\<close> with the first
  cycle's oracle call still pending leave two cycles in flight.
\<close>

theorem overlapping_cycles_counterexample:
  "\<not> length (in_flight (run [Fire, Fire] sample_scheduler)) \<le> 1"
  by (simp add: sample_scheduler_def sample_dashboard_def sample_settings_def initial_def
        defaultSettings_def cycle_start_def)

text \<open>
  The scheduler runs the cycle of \<^verbatim>\<open>runTradingCycle\<close>: a call, then the
  oracle settling, then the exchange settling, from a state with nothing in
  flight, give the state and the requests of one whole run.
\<close>

lemma run_one_cycle:
  assumes "in_flight \<sigma> = []"
  shows "run [Fire, OracleSettles 0 env, ExchangeSettles 0 env] \<sigma>
           = \<sigma>\<lparr> dash := fst (runTradingCycle (dash \<sigma>) env (dash \<sigma>)),
                sent := sent \<sigma> @ snd (runTradingCycle (dash \<sigma>) env (dash \<sigma>)) \<rparr>"
  using assms
  by (auto simp: runTradingCycle_def remove_at_def split: option.splits prod.splits)


theorem spaced_cycles_do_not_overlap_witness:
  "length (in_flight sample_scheduler) \<le> 1
   \<and> spaced [Fire, OracleSettles 0 sample_env, Fire] sample_scheduler
   \<and> length (in_flight (run (take 3 [Fire, OracleSettles 0 sample_env, Fire]) sample_scheduler)) = 1
   \<and> isAutoTrading (settings (dash (step Fire sample_scheduler)))
   \<and> marketData (dash (step Fire sample_scheduler)) \<noteq> None
   \<and> length (in_flight (step Fire sample_scheduler)) = 1
   \<and> length (in_flight (step Fire (step Fire sample_scheduler))) = 2"
  using spaced_cycles_do_not_overlap
    [where \<sigma> = sample_scheduler and es = "[Fire, OracleSettles 0 sample_env, Fire]" and n = 3
       and \<sigma>' = "step Fire sample_scheduler"]
  by (simp add: sample_scheduler_def sample_dashboard_def sample_settings_def sample_env_def
        sample_decision_def initial_def defaultSettings_def cycle_start_def
        cycle_after_oracle_def remove_at_def addLog_def Let_def)

section \<open>Properties of the settings inputs\<close>

text \<open>
  C10. For every input string the leverage handler stores a value from 1 to 125,
  the risk handler a value from 1 to 100 and the interval handler a value of at
  least 1; an input in which \<^verbatim>\<open>parseInt\<close> finds no number (\<^verbatim>\<open>NaN\<close>) is stored
  as 1 by all three.
\<close>

theorem settings_inputs_keep_bounds:
  "1 \<le> defaultLeverage (onChange_defaultLeverage v s)
   \<and> defaultLeverage (onChange_defaultLeverage v s) \<le> 125
   \<and> 1 \<le> riskPercent (onChange_riskPercent v s)
   \<and> riskPercent (onChange_riskPercent v s) \<le> 100
   \<and> 1 \<le> intervalMinutes (onChange_intervalMinutes v s)
   \<and> (parseInt v = None \<longrightarrow>
         defaultLeverage (onChange_defaultLeverage v s) = 1
         \<and> riskPercent (onChange_riskPercent v s) = 1
         \<and> intervalMinutes (onChange_intervalMinutes v s) = 1)"
  by (simp add: onChange_defaultLeverage_def onChange_riskPercent_def onChange_intervalMinutes_def)

lemma parseInt_abc: "parseInt (utf16 ''abc'') = None"
  by (simp add: utf16_def parseInt_def isWhiteSpace_def digit_of_def)

text \<open>
  Some values of \<^verbatim>\<open>parseInt\<close>: a numeric prefix is read and the rest
  ignored, so \<^verbatim>\<open>12abc\<close> is 12; the last input starts with a no-break space.
\<close>

lemma parseInt_examples:
  "parseInt (utf16 []) = None"
  "parseInt (utf16 ''42'') = Some 42"
  "parseInt (utf16 '' -7px'') = Some (- 7)"
  "parseInt (utf16 ''0x1F'') = Some 31"
  "parseInt (utf16 ''12abc'') = Some 12"
  "parseInt (utf16 ''+0'') = Some 0"
  "parseInt (utf16 ''1e3'') = Some 1"
  "parseInt [160, 53] = Some 5"
  by (simp_all add: utf16_def parseInt_def isWhiteSpace_def digit_of_def radix_value_def)

theorem settings_inputs_keep_bounds_witness:
  "parseInt (utf16 ''abc'') = None
   \<and> defaultLeverage (onChange_defaultLeverage (utf16 ''abc'') defaultSettings) = 1
   \<and> riskPercent (onChange_riskPercent (utf16 ''abc'') defaultSettings) = 1
   \<and> intervalMinutes (onChange_intervalMinutes (utf16 ''abc'') defaultSettings) = 1"
  using settings_inputs_keep_bounds [of "utf16 ''abc''" defaultSettings]
  by (simp add: parseInt_abc)

lemma handlers_examples:
  "defaultLeverage (onChange_defaultLeverage (utf16 ''500'') defaultSettings) = 125"
  "riskPercent (onChange_riskPercent (utf16 ''-3'') defaultSettings) = 1"
  "intervalMinutes (onChange_intervalMinutes (utf16 ''0'') defaultSettings) = 1"
  "intervalMinutes (onChange_intervalMinutes (utf16 ''15'') defaultSettings) = 15"
  by (simp_all add: onChange_defaultLeverage_def onChange_riskPercent_def
        onChange_intervalMinutes_def utf16_def parseInt_def isWhiteSpace_def digit_of_def
        radix_value_def)

end
